theory Spec2Isabelle
  imports Complex_Main "HOL-Library.Multiset"
begin

section \<open>Python values, strings and exceptions\<close>

text \<open>
  The values that cross the HTTP boundary of \<^verbatim>\<open>demo/agent.py\<close> are what
  \<^verbatim>\<open>json.loads\<close> produces, the body text itself, or \<^verbatim>\<open>None\<close>. Floats are left
  out of \<open>pyval\<close>: no operation modelled on it inspects a number.
\<close>

datatype pyval =
    PyNone
  | PyBool bool
  | PyInt int
  | PyStr string
  | PyList "pyval list"
  | PyDict "(string \<times> pyval) list"

text \<open>
  The exceptions of the source: every \<^verbatim>\<open>raise Exception(msg)\<close> is \<open>Exception msg\<close>;
  \<open>ClientError\<close> is aiohttp's, the only exception class the source catches by name
  besides \<^verbatim>\<open>json.JSONDecodeError\<close> and \<^verbatim>\<open>subprocess.TimeoutExpired\<close>, which it
  turns into an \<open>Exception\<close> at once; \<open>JSONDecodeError\<close> is what a JSON decoder raises
  where the source does not catch it; \<open>KeyError\<close> and \<open>TypeError\<close> are a failed subscript;
  \<open>OtherError\<close> stands for any other exception that the source neither raises nor
  catches.
\<close>

datatype error =
    Exception string
  | ClientError
  | JSONDecodeError
  | KeyError string
  | TypeError
  | OtherError

text \<open>\<^verbatim>\<open>str(n)\<close> for an integer: decimal digits, a minus sign when negative.\<close>

definition digit_char :: "nat \<Rightarrow> char" where
  "digit_char d = ''0123456789'' ! (d mod 10)"

function str_nat :: "nat \<Rightarrow> string" where
  "str_nat n = (if n < 10 then [digit_char n] else str_nat (n div 10) @ [digit_char (n mod 10)])"
  by pat_completeness auto
termination
  by (relation "measure (\<lambda>n. n)") auto

declare str_nat.simps [simp del]

definition str_int :: "int \<Rightarrow> string" where
  "str_int i = (if i < 0 then CHR ''-'' # str_nat (nat (- i)) else str_nat (nat i))"

text \<open>\<^verbatim>\<open>s.startswith(p)\<close> and the substring test \<^verbatim>\<open>p in s\<close>.\<close>

fun starts_with :: "string \<Rightarrow> string \<Rightarrow> bool" where
  "starts_with [] s = True"
| "starts_with (p # ps) [] = False"
| "starts_with (p # ps) (c # cs) = (p = c \<and> starts_with ps cs)"

fun str_contains :: "string \<Rightarrow> string \<Rightarrow> bool" where
  "str_contains p [] = (p = [])"
| "str_contains p (c # cs) = (starts_with p (c # cs) \<or> str_contains p cs)"

text \<open>\<^verbatim>\<open>x or default\<close> on an optional string: \<^verbatim>\<open>None\<close> and \<^verbatim>\<open>""\<close> are falsy.\<close>

fun str_or :: "string option \<Rightarrow> string \<Rightarrow> string" where
  "str_or None d = d"
| "str_or (Some s) d = (if s = [] then d else s)"

section \<open>The world outside the agent\<close>

text \<open>
  What the harness does to the outside is recorded as a trace of events, in order:
  \<^verbatim>\<open>asyncio.sleep(t)\<close>, an HTTP GET, \<^verbatim>\<open>proc.terminate()\<close>,
  \<^verbatim>\<open>proc.wait(timeout=t)\<close>, closing the client session, stopping the webhook site.
  Durations are seconds. Lines handed to the logging callback (\<^verbatim>\<open>self.log\<close>) are not
  recorded.
\<close>

datatype event =
    Sleep rat
  | Http_get string
  | Proc_terminate
  | Proc_wait rat
  | Session_close
  | Site_stop

text \<open>
  One use of \<^verbatim>\<open>async with session.get(url) as resp\<close> (with \<^verbatim>\<open>await resp.text()\<close>
  inside it) either yields a status and a body text, or raises \<^verbatim>\<open>ClientError\<close>, or
  raises something else. The server is a function of the ordinal of the request and its
  URL.
\<close>

datatype http_outcome =
    Response int string
  | Raises_ClientError
  | Raises_other

type_synonym server = "nat \<Rightarrow> string \<Rightarrow> http_outcome"

text \<open>
  A request made with \<^verbatim>\<open>session.request(method, url, json=data)\<close> or
  \<^verbatim>\<open>session.post(url, json=data)\<close>, and the peer that answers one such request.
\<close>

record http_request =
  rq_method :: string
  rq_url :: string
  rq_json :: pyval

type_synonym peer = "http_request \<Rightarrow> http_outcome"

text \<open>
  \<^verbatim>\<open>json.loads\<close> belongs to the Python library, not to this file: it is a parameter
  of every operation that decodes a body. \<open>None\<close> is \<^verbatim>\<open>json.JSONDecodeError\<close>.
\<close>

type_synonym decoder = "string \<Rightarrow> pyval option"

text \<open>Subscripts: \<^verbatim>\<open>d[k]\<close> on a dictionary kept in insertion order, and on a value.\<close>

definition subscript :: "(string \<times> 'v) list \<Rightarrow> string \<Rightarrow> error + 'v" where
  "subscript d k = (case map_of d k of None \<Rightarrow> Inl (KeyError k) | Some v \<Rightarrow> Inr v)"

fun subscript_pyval :: "pyval \<Rightarrow> string \<Rightarrow> error + pyval" where
  "subscript_pyval (PyDict d) k = subscript d k"
| "subscript_pyval v k = Inl TypeError"

section \<open>The agent record\<close>

text \<open>
  The module-level defaults: \<^verbatim>\<open>RUNMODE\<close> and \<^verbatim>\<open>DOCKERHOST\<close> are read from the
  environment once, at import.
\<close>

record defaults =
  DEFAULT_INTERNAL_HOST :: string
  DEFAULT_EXTERNAL_HOST :: string
  DEFAULT_BIN_PATH :: string
  DEFAULT_PYTHON_PATH :: string

definition module_defaults :: "string option \<Rightarrow> string option \<Rightarrow> defaults" where
  "module_defaults RUN_MODE DOCKERHOST =
     (if RUN_MODE = Some ''docker''
      then (let h = str_or DOCKERHOST ''host.docker.internal'' in
            \<lparr>DEFAULT_INTERNAL_HOST = h, DEFAULT_EXTERNAL_HOST = h,
             DEFAULT_BIN_PATH = ''./bin'', DEFAULT_PYTHON_PATH = ''.''\<rparr>)
      else \<lparr>DEFAULT_INTERNAL_HOST = ''127.0.0.1'', DEFAULT_EXTERNAL_HOST = ''localhost'',
            DEFAULT_BIN_PATH = ''../bin'', DEFAULT_PYTHON_PATH = ''..''\<rparr>)"

text \<open>
  The child process as the harness sees it: \<open>returncode\<close> is what \<^verbatim>\<open>poll()\<close> gives,
  \<^verbatim>\<open>None\<close> while the process runs and its return code afterwards. A
  \<^verbatim>\<open>proc.wait(timeout=t)\<close> either sees the process exit with a code or raises
  \<^verbatim>\<open>subprocess.TimeoutExpired\<close>.
\<close>

record process =
  returncode :: "int option"

datatype wait_outcome = Exits int | TimeoutExpired

text \<open>
  The fields of \<^verbatim>\<open>DemoAgent\<close> that the operations below read or write. The wallet
  fields (\<^verbatim>\<open>storage_type\<close>, \<^verbatim>\<open>wallet_type\<close>, \<^verbatim>\<open>wallet_name\<close>, \<^verbatim>\<open>wallet_key\<close>),
  \<^verbatim>\<open>params\<close>, \<^verbatim>\<open>genesis_data\<close>, \<^verbatim>\<open>timing\<close>, \<^verbatim>\<open>postgres\<close> and
  \<^verbatim>\<open>extra_args\<close> are written once in \<^verbatim>\<open>__init__\<close> and only read by
  \<^verbatim>\<open>get_agent_args\<close>; they are not part of the record. \<open>webhook_site\<close> holds the
  port the site listens on; \<open>session_closed\<close> is the state of \<^verbatim>\<open>client_session\<close>.
\<close>

record agent =
  ident :: string
  http_port :: int
  admin_port :: int
  internal_host :: string
  external_host :: string
  label :: string
  color :: "string option"
  prefix :: "string option"
  endpoint :: string
  admin_url :: string
  webhook_port :: "int option"
  webhook_url :: "string option"
  webhook_site :: "int option"
  proc :: "process option"
  session_closed :: bool
  seed :: string
  did :: pyval

text \<open>
  \<^verbatim>\<open>DemoAgent.__init__\<close>, lines 48 to 95. \<open>rand\<close> is the value of
  \<^verbatim>\<open>random.randint(100_000, 999_999)\<close>, \<open>seed_param\<close> is \<^verbatim>\<open>params.get("seed")\<close>;
  \<^verbatim>\<open>s[-32:]\<close> keeps the last 32 characters.
\<close>

definition last_chars :: "nat \<Rightarrow> string \<Rightarrow> string" where
  "last_chars n s = drop (length s - n) s"

definition init ::
  "defaults \<Rightarrow> int \<Rightarrow> string \<Rightarrow> int \<Rightarrow> int \<Rightarrow> string option \<Rightarrow> string option \<Rightarrow>
   string option \<Rightarrow> string option \<Rightarrow> string option \<Rightarrow> string option \<Rightarrow> agent" where
  "init dflt rand ident_arg http_port_arg admin_port_arg internal_host_arg external_host_arg
        label_arg color_arg prefix_arg seed_param =
     (let ext = str_or external_host_arg (DEFAULT_EXTERNAL_HOST dflt) in
      \<lparr>ident = ident_arg,
       http_port = http_port_arg,
       admin_port = admin_port_arg,
       internal_host = str_or internal_host_arg (DEFAULT_INTERNAL_HOST dflt),
       external_host = ext,
       label = str_or label_arg ident_arg,
       color = color_arg,
       prefix = prefix_arg,
       endpoint = ''http://'' @ ext @ '':'' @ str_int http_port_arg,
       admin_url = ''http://'' @ ext @ '':'' @ str_int admin_port_arg,
       webhook_port = None,
       webhook_url = None,
       webhook_site = None,
       proc = None,
       session_closed = False,
       seed = str_or seed_param
                (last_chars 32 (''my_seed_000000000000000000000000'' @ str_int rand)),
       did = PyNone\<rparr>)"

section \<open>Readiness probe\<close>

text \<open>
  \<^verbatim>\<open>DemoAgent.detect_process\<close>, lines 304 to 322. The loop runs over
  \<^verbatim>\<open>range(10)\<close>: \<open>i\<close> is the loop index, the second number the iterations left,
  \<open>text\<close> the local variable of that name. A status other than 200 leaves \<open>text\<close>
  as it is and goes round again; \<^verbatim>\<open>ClientError\<close> resets it and continues; status 200
  stores the body and breaks. Any other exception leaves the function.
\<close>

definition swagger_url :: "agent \<Rightarrow> string" where
  "swagger_url a = admin_url a @ ''/api/docs/swagger.json''"

fun after :: "event list \<Rightarrow> event list \<times> 'r \<Rightarrow> event list \<times> 'r" where
  "after evs (tr, r) = (evs @ tr, r)"

fun detect_loop ::
  "agent \<Rightarrow> server \<Rightarrow> nat \<Rightarrow> nat \<Rightarrow> string option \<Rightarrow> event list \<times> (error + string option)" where
  "detect_loop a srv i 0 text = ([], Inr text)"
| "detect_loop a srv i (Suc n) text =
     (case srv i (swagger_url a) of
        Response status body \<Rightarrow>
          if status = 200 then ([Sleep 2, Http_get (swagger_url a)], Inr (Some body))
          else after [Sleep 2, Http_get (swagger_url a)] (detect_loop a srv (Suc i) n text)
      | Raises_ClientError \<Rightarrow>
          after [Sleep 2, Http_get (swagger_url a)] (detect_loop a srv (Suc i) n None)
      | Raises_other \<Rightarrow> ([Sleep 2, Http_get (swagger_url a)], Inl OtherError))"

definition timeout_msg :: string where
  "timeout_msg = ''Timed out waiting for agent process to start''"

definition unexpected_msg :: string where
  "unexpected_msg = ''Unexpected response from agent process''"

definition marker :: string where
  "marker = ''Aries Cloud Agent''"

definition detect_process :: "agent \<Rightarrow> server \<Rightarrow> event list \<times> (error + unit)" where
  "detect_process a srv =
     (case detect_loop a srv 0 10 None of
        (tr, Inl e) \<Rightarrow> (tr, Inl e)
      | (tr, Inr None) \<Rightarrow> (tr, Inl (Exception timeout_msg))
      | (tr, Inr (Some text)) \<Rightarrow>
          if text = [] then (tr, Inl (Exception timeout_msg))
          else if \<not> str_contains marker text then (tr, Inl (Exception unexpected_msg))
          else (tr, Inr ()))"

text \<open>The number of polls a run made is the number of GET events in its trace.\<close>

fun is_get :: "event \<Rightarrow> bool" where
  "is_get (Http_get u) = True"
| "is_get e = False"

definition n_polls :: "event list \<Rightarrow> nat" where
  "n_polls tr = length (filter is_get tr)"

text \<open>
  A poll that gives the loop nothing to break on: a status other than 200, or
  \<^verbatim>\<open>ClientError\<close>. \<open>quiet_before srv u i\<close> says so of the server's answers to the
  polls before poll \<open>i\<close> (counted from 0), \<open>never_ready\<close> of its answers to all ten polls.
  Both speak of the server alone.
\<close>

fun no_answer :: "http_outcome \<Rightarrow> bool" where
  "no_answer (Response status body) = (status \<noteq> 200)"
| "no_answer Raises_ClientError = True"
| "no_answer Raises_other = False"

definition quiet_before :: "server \<Rightarrow> string \<Rightarrow> nat \<Rightarrow> bool" where
  "quiet_before srv u i = list_all (\<lambda>j. no_answer (srv j u)) [0..<i]"

definition never_ready :: "server \<Rightarrow> string \<Rightarrow> bool" where
  "never_ready srv u = list_all (\<lambda>i. no_answer (srv i u)) [0..<10]"

section \<open>Admin requests\<close>

text \<open>
  \<^verbatim>\<open>DemoAgent.admin_request\<close>, lines 282 to 296, with \<^verbatim>\<open>admin_GET\<close> and
  \<^verbatim>\<open>admin_POST\<close>. \<open>text_mode\<close> is the parameter \<^verbatim>\<open>text\<close>; \<^verbatim>\<open>data=None\<close> is
  \<open>PyNone\<close>. An exception of the request itself is not caught and leaves the function.
\<close>

definition admin_request ::
  "decoder \<Rightarrow> peer \<Rightarrow> agent \<Rightarrow> string \<Rightarrow> string \<Rightarrow> pyval \<Rightarrow> bool \<Rightarrow> error + pyval" where
  "admin_request json_loads http a method path data text_mode =
     (case http \<lparr>rq_method = method, rq_url = admin_url a @ path, rq_json = data\<rparr> of
        Raises_ClientError \<Rightarrow> Inl ClientError
      | Raises_other \<Rightarrow> Inl OtherError
      | Response status resp_text \<Rightarrow>
          if status < 200 \<or> status > 299
          then Inl (Exception (''Unexpected HTTP response: '' @ str_int status))
          else if resp_text = [] \<and> \<not> text_mode then Inr PyNone
          else if \<not> text_mode then
            (case json_loads resp_text of
               Some v \<Rightarrow> Inr v
             | None \<Rightarrow> Inl (Exception (''Error decoding JSON: '' @ resp_text)))
          else Inr (PyStr resp_text))"

definition admin_GET :: "decoder \<Rightarrow> peer \<Rightarrow> agent \<Rightarrow> string \<Rightarrow> bool \<Rightarrow> error + pyval" where
  "admin_GET json_loads http a path text_mode =
     admin_request json_loads http a ''GET'' path PyNone text_mode"

definition admin_POST ::
  "decoder \<Rightarrow> peer \<Rightarrow> agent \<Rightarrow> string \<Rightarrow> pyval \<Rightarrow> bool \<Rightarrow> error + pyval" where
  "admin_POST json_loads http a path data text_mode =
     admin_request json_loads http a ''POST'' path data text_mode"

text \<open>\<^verbatim>\<open>DemoAgent.reset_timing\<close>, lines 352 to 353: the result is dropped.\<close>

definition reset_timing :: "decoder \<Rightarrow> peer \<Rightarrow> agent \<Rightarrow> error + unit" where
  "reset_timing json_loads http a =
     (case admin_POST json_loads http a ''/status/reset'' PyNone True of
        Inl e \<Rightarrow> Inl e
      | Inr v \<Rightarrow> Inr ())"

section \<open>Webhooks\<close>

text \<open>
  Handlers are methods of subclasses, found by name. \<open>getattr_self name\<close> is
  \<^verbatim>\<open>getattr(self, name, None)\<close>: \<open>None\<close> when there is no such attribute (or a falsy
  one), otherwise what awaiting the method on a payload does: return (\<open>None\<close>) or raise
  (\<open>Some e\<close>). Each invocation is recorded with the attribute's name and its argument.
\<close>

type_synonym handler = "pyval \<Rightarrow> error option"

type_synonym attrs = "string \<Rightarrow> handler option"

datatype call = Call string pyval

text \<open>\<^verbatim>\<open>DemoAgent.handle_webhook\<close>, lines 276 to 280.\<close>

definition handle_webhook :: "attrs \<Rightarrow> string \<Rightarrow> pyval \<Rightarrow> call list \<times> (error + unit)" where
  "handle_webhook getattr_self topic payload =
     (if topic \<noteq> ''webhook'' then
        (case getattr_self (''handle_'' @ topic) of
           None \<Rightarrow> ([], Inr ())
         | Some method \<Rightarrow>
             (case method payload of
                None \<Rightarrow> ([Call (''handle_'' @ topic) payload], Inr ())
              | Some e \<Rightarrow> ([Call (''handle_'' @ topic) payload], Inl e)))
      else ([], Inr ()))"

text \<open>
  \<^verbatim>\<open>DemoAgent._receive_webhook\<close>, lines 270 to 274, without the leading underscore.
  The request carries the \<open>topic\<close> matched by the route
  \<^verbatim>\<open>POST /webhooks/topic/{topic}/\<close> and its body; \<^verbatim>\<open>request.json()\<close> decodes the
  body and its exception is not caught. \<^verbatim>\<open>web.Response(text=t)\<close> has status 200.
\<close>

record webhook_request =
  match_info_topic :: string
  rq_body :: string

record http_response =
  rs_status :: int
  rs_text :: string

definition web_Response :: "string \<Rightarrow> http_response" where
  "web_Response t = \<lparr>rs_status = 200, rs_text = t\<rparr>"

definition receive_webhook ::
  "decoder \<Rightarrow> attrs \<Rightarrow> webhook_request \<Rightarrow> call list \<times> (error + http_response)" where
  "receive_webhook json_loads getattr_self request =
     (case json_loads (rq_body request) of
        None \<Rightarrow> ([], Inl JSONDecodeError)
      | Some payload \<Rightarrow>
          (case handle_webhook getattr_self (match_info_topic request) payload of
             (calls, Inl e) \<Rightarrow> (calls, Inl e)
           | (calls, Inr u) \<Rightarrow> (calls, Inr (web_Response []))))"

text \<open>\<^verbatim>\<open>DemoAgent.listen_webhooks\<close>, lines 260 to 268: the three assignments.\<close>

definition listen_webhooks :: "agent \<Rightarrow> int \<Rightarrow> agent" where
  "listen_webhooks a port =
     a\<lparr>webhook_port := Some port,
       webhook_url := Some (''http://'' @ external_host a @ '':'' @ str_int port @ ''/webhooks''),
       webhook_site := Some port\<rparr>"

section \<open>Process lifecycle\<close>

text \<open>
  \<^verbatim>\<open>DemoAgent._terminate\<close>, lines 241 to 250, as \<open>terminate_proc\<close>: \<open>w\<close> is what the
  bounded wait will see. The timeout is half a second.
\<close>

definition terminate_msg :: string where
  "terminate_msg = ''Process did not terminate in time''"

definition terminate_proc :: "agent \<Rightarrow> wait_outcome \<Rightarrow> agent \<times> event list \<times> (error + unit)" where
  "terminate_proc a w =
     (case proc a of
        None \<Rightarrow> (a, [], Inr ())
      | Some p \<Rightarrow>
          (case returncode p of
             Some rc \<Rightarrow> (a, [], Inr ())
           | None \<Rightarrow>
               (case w of
                  Exits rc \<Rightarrow>
                    (a\<lparr>proc := Some (p\<lparr>returncode := Some rc\<rparr>)\<rparr>,
                     [Proc_terminate, Proc_wait (1 / 2)], Inr ())
                | TimeoutExpired \<Rightarrow>
                    (a, [Proc_terminate, Proc_wait (1 / 2)], Inl (Exception terminate_msg)))))"

text \<open>\<^verbatim>\<open>DemoAgent.terminate\<close>, lines 252 to 258.\<close>

definition close_all :: "agent \<Rightarrow> agent \<times> event list \<times> (error + unit)" where
  "close_all a =
     (a\<lparr>session_closed := True\<rparr>,
      Session_close # (if webhook_site a \<noteq> None then [Site_stop] else []),
      Inr ())"

definition terminate :: "agent \<Rightarrow> wait_outcome \<Rightarrow> agent \<times> event list \<times> (error + unit)" where
  "terminate a w =
     (if proc a \<noteq> None then
        (case terminate_proc a w of
           (a1, tr, Inl e) \<Rightarrow> (a1, tr, Inl e)
         | (a1, tr, Inr u) \<Rightarrow>
             (case close_all a1 of (a2, tr2, r) \<Rightarrow> (a2, tr @ tr2, r)))
      else close_all a)"

text \<open>
  \<^verbatim>\<open>DemoAgent.start_process\<close>, lines 223 to 239: \<open>p\<close> is the process that
  \<^verbatim>\<open>_process\<close> spawned. The command line and the environment of the child are not
  modelled.
\<close>

definition start_process :: "agent \<Rightarrow> process \<Rightarrow> server \<Rightarrow> bool \<Rightarrow> agent \<times> event list \<times> (error + unit)" where
  "start_process a p srv wait =
     (let a1 = a\<lparr>proc := Some p\<rparr> in
      if wait then (case detect_process a1 srv of (tr, r) \<Rightarrow> (a1, tr, r))
      else (a1, [], Inr ()))"

text \<open>\<^verbatim>\<open>DemoAgent.register_did\<close>, lines 160 to 172.\<close>

definition register_did ::
  "decoder \<Rightarrow> peer \<Rightarrow> agent \<Rightarrow> string option \<Rightarrow> string option \<Rightarrow> agent \<times> (error + unit)" where
  "register_did json_loads http a ledger_url alias =
     (let url = str_or ledger_url (''http://'' @ external_host a @ '':9000'');
          data = PyDict [(''alias'', PyStr (str_or alias (ident a))),
                         (''seed'', PyStr (seed a)),
                         (''role'', PyStr ''TRUST_ANCHOR'')]
      in case http \<lparr>rq_method = ''POST'', rq_url = url @ ''/register'', rq_json = data\<rparr> of
           Raises_ClientError \<Rightarrow> (a, Inl ClientError)
         | Raises_other \<Rightarrow> (a, Inl OtherError)
         | Response status body \<Rightarrow>
             if status \<noteq> 200
             then (a, Inl (Exception (''Error registering DID, response code '' @ str_int status)))
             else (case json_loads body of
                     None \<Rightarrow> (a, Inl JSONDecodeError)
                   | Some nym_info \<Rightarrow>
                       (case subscript_pyval nym_info ''did'' of
                          Inl e \<Rightarrow> (a, Inl e)
                        | Inr d \<Rightarrow> (a\<lparr>did := d\<rparr>, Inr ()))))"

text \<open>
  The operations of an agent after its construction, with what the outside gives each,
  and the agent each leaves behind. \<open>Op_other\<close> is any method that assigns no attribute:
  \<^verbatim>\<open>get_agent_args\<close>, \<^verbatim>\<open>get_process_args\<close>, \<^verbatim>\<open>handle_output\<close>, \<^verbatim>\<open>log\<close>,
  \<^verbatim>\<open>log_json\<close>, \<^verbatim>\<open>log_timer\<close>, \<^verbatim>\<open>_receive_webhook\<close>, \<^verbatim>\<open>handle_webhook\<close>,
  \<^verbatim>\<open>admin_request\<close>, \<^verbatim>\<open>admin_GET\<close>, \<^verbatim>\<open>admin_POST\<close>, \<^verbatim>\<open>detect_process\<close>,
  \<^verbatim>\<open>fetch_timing\<close>, \<^verbatim>\<open>format_timing\<close>, \<^verbatim>\<open>reset_timing\<close>.
\<close>

datatype operation =
    Op_register_did decoder peer "string option" "string option"
  | Op_start_process process server bool
  | Op_terminate_proc wait_outcome
  | Op_terminate wait_outcome
  | Op_listen_webhooks int
  | Op_other

fun step :: "operation \<Rightarrow> agent \<Rightarrow> agent" where
  "step (Op_register_did json_loads http ledger_url alias) a =
     fst (register_did json_loads http a ledger_url alias)"
| "step (Op_start_process p srv wait) a = fst (start_process a p srv wait)"
| "step (Op_terminate_proc w) a = fst (terminate_proc a w)"
| "step (Op_terminate w) a = fst (terminate a w)"
| "step (Op_listen_webhooks port) a = listen_webhooks a port"
| "step Op_other a = a"

definition run :: "operation list \<Rightarrow> agent \<Rightarrow> agent" where
  "run ops a = fold step ops a"

section \<open>Timing report\<close>

text \<open>
  The timing dictionary has five inner dictionaries keyed by metric name, kept in
  insertion order. Counts are integers. Totals, averages, minima and maxima are finite
  floats (or integers): each is the rational number it denotes, which is all that
  comparison and \<^verbatim>\<open>{:.3f}\<close> read; \<^verbatim>\<open>nan\<close>, the infinities and the sign of zero are
  not modelled.
\<close>

record timing =
  t_count :: "(string \<times> int) list"
  t_total :: "(string \<times> rat) list"
  t_avg :: "(string \<times> rat) list"
  t_min :: "(string \<times> rat) list"
  t_max :: "(string \<times> rat) list"

type_synonym row = "string \<times> int \<times> rat \<times> rat \<times> rat \<times> rat"

fun row_count :: "row \<Rightarrow> int" where
  "row_count (name, cnt, tot, av, mn, mx) = cnt"

fun row_total :: "row \<Rightarrow> rat" where
  "row_total (name, cnt, tot, av, mn, mx) = tot"

text \<open>
  The loop of lines 330 to 340 over \<^verbatim>\<open>timing["count"].items()\<close>: the tuple is built
  left to right, so the first missing key raises.
\<close>

fun build_rows :: "timing \<Rightarrow> (string \<times> int) list \<Rightarrow> error + row list" where
  "build_rows t [] = Inr []"
| "build_rows t ((name, cnt) # items) =
     (case subscript (t_total t) name of Inl e \<Rightarrow> Inl e | Inr tot \<Rightarrow>
      case subscript (t_avg t) name of Inl e \<Rightarrow> Inl e | Inr av \<Rightarrow>
      case subscript (t_min t) name of Inl e \<Rightarrow> Inl e | Inr mn \<Rightarrow>
      case subscript (t_max t) name of Inl e \<Rightarrow> Inl e | Inr mx \<Rightarrow>
      case build_rows t items of Inl e \<Rightarrow> Inl e | Inr rows \<Rightarrow>
        Inr ((take 35 name, cnt, tot, av, mn, mx) # rows))"

text \<open>
  \<^verbatim>\<open>result.sort(key=lambda row: row[2], reverse=True)\<close>: Python's sort is stable, and
  with \<^verbatim>\<open>reverse=True\<close> it reverses the list, sorts it ascending and reverses it
  again.
\<close>

definition sort_reverse :: "('a \<Rightarrow> 'k::linorder) \<Rightarrow> 'a list \<Rightarrow> 'a list" where
  "sort_reverse key xs = rev (sort_key key (rev xs))"

definition sorted_rows :: "timing \<Rightarrow> error + row list" where
  "sorted_rows t =
     (case build_rows t (t_count t) of
        Inl e \<Rightarrow> Inl e
      | Inr result \<Rightarrow> Inr (sort_reverse row_total result))"

text \<open>
  Format fields. A width is a minimum: a longer rendering is not cut. \<^verbatim>\<open>{:35}\<close> pads
  a string on the right, \<^verbatim>\<open>{:>12}\<close> on the left, and numbers are padded on the left.
  \<^verbatim>\<open>{:.3f}\<close> rounds the exact value to three decimals, ties to even.
\<close>

definition ljust :: "nat \<Rightarrow> string \<Rightarrow> string" where
  "ljust w s = s @ replicate (w - length s) CHR '' ''"

definition rjust :: "nat \<Rightarrow> string \<Rightarrow> string" where
  "rjust w s = replicate (w - length s) CHR '' '' @ s"

definition rjust_zero :: "nat \<Rightarrow> string \<Rightarrow> string" where
  "rjust_zero w s = replicate (w - length s) CHR ''0'' @ s"

definition round_half_even :: "rat \<Rightarrow> int" where
  "round_half_even x =
     (let f = \<lfloor>x\<rfloor>; d = x - of_int f
      in if d < 1 / 2 then f else if 1 / 2 < d then f + 1 else if even f then f else f + 1)"

definition str_3f :: "rat \<Rightarrow> string" where
  "str_3f x =
     (let m = round_half_even (\<bar>x\<bar> * 1000)
      in (if x < 0 then ''-'' else []) @ str_int (m div 1000) @ ''.'' @
         rjust_zero 3 (str_int (m mod 1000)))"

definition header_line :: string where
  "header_line =
     ljust 35 [] @ '' | '' @ rjust 12 ''count'' @ '' '' @ rjust 12 ''total'' @ '' '' @
     rjust 10 ''avg'' @ '' '' @ rjust 10 ''min'' @ '' '' @ rjust 10 ''max''"

fun format_row :: "row \<Rightarrow> string" where
  "format_row (name, cnt, tot, av, mn, mx) =
     ljust 35 name @ '' | '' @ rjust 12 (str_int cnt) @ '' '' @ rjust 12 (str_3f tot) @ '' '' @
     rjust 10 (str_3f av) @ '' '' @ rjust 10 (str_3f mn) @ '' '' @ rjust 10 (str_3f mx)"

text \<open>
  \<^verbatim>\<open>DemoAgent.format_timing\<close>, lines 328 to 350: the lines the generator yields, or
  the exception its first step raises.
\<close>

definition format_timing :: "timing \<Rightarrow> error + string list" where
  "format_timing t =
     (case sorted_rows t of
        Inl e \<Rightarrow> Inl e
      | Inr result \<Rightarrow>
          Inr ([header_line, replicate 96 CHR ''=''] @ map format_row result @ [[]]))"

text \<open>A row whose numbers all fit the widths of their columns.\<close>

fun fits :: "row \<Rightarrow> bool" where
  "fits (name, cnt, tot, av, mn, mx) =
     (length (str_int cnt) \<le> 12 \<and> length (str_3f tot) \<le> 12 \<and> length (str_3f av) \<le> 10 \<and>
      length (str_3f mn) \<le> 10 \<and> length (str_3f mx) \<le> 10)"

text \<open>
  What the report is measured against. An entry of the count dictionary is complete
  when the four other dictionaries have its name; \<open>complete\<close> says so of every entry.
  \<open>row_of_entry\<close> is the tuple that the loop appends for a complete entry.
\<close>

fun has_all :: "timing \<Rightarrow> string \<times> int \<Rightarrow> bool" where
  "has_all t (name, cnt) =
     (map_of (t_total t) name \<noteq> None \<and> map_of (t_avg t) name \<noteq> None \<and>
      map_of (t_min t) name \<noteq> None \<and> map_of (t_max t) name \<noteq> None)"

definition complete :: "timing \<Rightarrow> bool" where
  "complete t = list_all (has_all t) (t_count t)"

fun row_of_entry :: "timing \<Rightarrow> string \<times> int \<Rightarrow> row" where
  "row_of_entry t (name, cnt) =
     (take 35 name, cnt, the (map_of (t_total t) name), the (map_of (t_avg t) name),
      the (map_of (t_min t) name), the (map_of (t_max t) name))"

section \<open>Sample inputs\<close>

definition alice :: agent where
  "alice = init (module_defaults None None) 123456 ''Alice'' 8020 8021 None None None None None None"

definition srv_starting :: server where
  "srv_starting i u = Response 200 ''starting''"

definition srv_down :: server where
  "srv_down i u = (if even i then Raises_ClientError else Response 503 ''Service Unavailable'')"

definition swagger_body :: string where
  "swagger_body = ''{\"info\": {\"title\": \"Aries Cloud Agent\"}}''"

definition srv_late :: "string \<Rightarrow> server" where
  "srv_late body i u =
     (if i = 0 then Raises_ClientError
      else if i = 1 then Response 503 ''Service Unavailable''
      else Response 200 body)"

definition srv_ready_third :: server where
  "srv_ready_third i u =
     (if u = ''http://localhost:8021/api/docs/swagger.json'' \<and> 2 \<le> i
      then Response 200 swagger_body else Raises_ClientError)"

text \<open>
  A decoder for the examples. It agrees with \<^verbatim>\<open>json.loads\<close> on the four bodies the
  examples use: an object, the empty array, and two that \<^verbatim>\<open>json.loads\<close> rejects, the
  empty body and a lone brace. A peer that gives every request the same answer.
\<close>

definition loads_sample :: decoder where
  "loads_sample s =
     (if s = ''{\"state\":\"active\"}'' then Some (PyDict [(''state'', PyStr ''active'')])
      else if s = ''[]'' then Some (PyList [])
      else None)"

definition peer_of :: "int \<Rightarrow> string \<Rightarrow> peer" where
  "peer_of status body rq = Response status body"


text \<open>
  Two handlers, and an attribute table for the examples: a subclass that defines \<^verbatim>\<open>handle_connections\<close>,
  which returns, and \<^verbatim>\<open>handle_problem_report\<close>, which raises. \<^verbatim>\<open>DemoAgent\<close> itself
  has two attributes whose names start with \<^verbatim>\<open>handle_\<close>: \<^verbatim>\<open>handle_webhook\<close>, which
  called with one argument raises \<^verbatim>\<open>TypeError\<close>, and \<^verbatim>\<open>handle_output\<close>, which
  returns \<^verbatim>\<open>None\<close>, so that awaiting its result raises \<^verbatim>\<open>TypeError\<close>.
\<close>

definition returns :: handler where
  "returns payload = None"

definition raises :: "error \<Rightarrow> handler" where
  "raises e payload = Some e"

definition sample_attrs :: attrs where
  "sample_attrs name =
     (if name = ''handle_connections'' then Some returns
      else if name = ''handle_problem_report'' then Some (raises (Exception ''problem''))
      else if name = ''handle_webhook'' \<or> name = ''handle_output'' then Some (raises TypeError)
      else None)"

definition active_body :: string where
  "active_body = ''{\"state\":\"active\"}''"

definition active_payload :: pyval where
  "active_payload = PyDict [(''state'', PyStr ''active'')]"

definition alice_running :: agent where
  "alice_running = alice\<lparr>proc := Some \<lparr>returncode = None\<rparr>\<rparr>"

text \<open>
  Two timing reports: one whose rows arrive in ascending order of total, with a tie, and
  one with a count of thirteen digits.
\<close>

definition timing_sample :: timing where
  "timing_sample =
     \<lparr>t_count = [(''connect'', 2), (''verify'', 7), (''issue'', 1)],
      t_total = [(''connect'', 3 / 2), (''verify'', 5), (''issue'', 3 / 2)],
      t_avg = [(''connect'', 3 / 4), (''verify'', 5 / 7), (''issue'', 3 / 2)],
      t_min = [(''connect'', 1 / 2), (''verify'', 1 / 8), (''issue'', 3 / 2)],
      t_max = [(''connect'', 1), (''verify'', 2), (''issue'', 3 / 2)]\<rparr>"

definition timing_wide :: timing where
  "timing_wide =
     \<lparr>t_count = [(''connect'', 2), (''verify'', 1000000000000)],
      t_total = [(''connect'', 3 / 2), (''verify'', 5)],
      t_avg = [(''connect'', 3 / 4), (''verify'', 0)],
      t_min = [(''connect'', 1 / 2), (''verify'', 0)],
      t_max = [(''connect'', 1), (''verify'', 1)]\<rparr>"

section \<open>The readiness probe: traces and outcomes\<close>

lemma after_fst: "fst (after evs p) = evs @ fst p"
  by (cases p) simp

lemma n_polls_replicate: "n_polls (concat (replicate k [Sleep 2, Http_get u])) = k"
  by (induction k) (simp_all add: n_polls_def)

lemma detect_loop_shape:
  "\<exists>k\<le>n. fst (detect_loop a srv i n tx) = concat (replicate k [Sleep 2, Http_get (swagger_url a)])"
proof (induction n arbitrary: i tx)
  case 0
  show ?case by simp
next
  case (Suc n)
  obtain k1 where k1: "k1 \<le> n"
      "fst (detect_loop a srv (Suc i) n tx) = concat (replicate k1 [Sleep 2, Http_get (swagger_url a)])"
    using Suc.IH by blast
  obtain k2 where k2: "k2 \<le> n"
      "fst (detect_loop a srv (Suc i) n None) = concat (replicate k2 [Sleep 2, Http_get (swagger_url a)])"
    using Suc.IH by blast
  show ?case
  proof (cases "srv i (swagger_url a)")
    case (Response status body)
    show ?thesis
    proof (cases "status = 200")
      case True
      with Response have "fst (detect_loop a srv i (Suc n) tx) =
          concat (replicate (Suc 0) [Sleep 2, Http_get (swagger_url a)])" by simp
      then show ?thesis by (metis Suc_le_mono le0)
    next
      case False
      with Response k1 have "fst (detect_loop a srv i (Suc n) tx) =
          concat (replicate (Suc k1) [Sleep 2, Http_get (swagger_url a)])" by (simp add: after_fst)
      with k1 show ?thesis by (metis Suc_le_mono)
    qed
  next
    case Raises_ClientError
    with k2 have "fst (detect_loop a srv i (Suc n) tx) =
        concat (replicate (Suc k2) [Sleep 2, Http_get (swagger_url a)])" by (simp add: after_fst)
    with k2 show ?thesis by (metis Suc_le_mono)
  next
    case Raises_other
    then have "fst (detect_loop a srv i (Suc n) tx) =
        concat (replicate (Suc 0) [Sleep 2, Http_get (swagger_url a)])" by simp
    then show ?thesis by (metis Suc_le_mono le0)
  qed
qed

lemma detect_loop_bound: "n_polls (fst (detect_loop a srv i n tx)) \<le> n"
  using detect_loop_shape [of n a srv i tx] by (auto simp add: n_polls_replicate)

lemma detect_loop_trace:
  "fst (detect_loop a srv i n tx) =
     concat (replicate (n_polls (fst (detect_loop a srv i n tx))) [Sleep 2, Http_get (swagger_url a)])"
  using detect_loop_shape [of n a srv i tx] by (auto simp add: n_polls_replicate)

lemma detect_loop_first_200:
  "i < n \<Longrightarrow> \<forall>j<i. no_answer (srv (k + j) (swagger_url a)) \<Longrightarrow>
   srv (k + i) (swagger_url a) = Response 200 body \<Longrightarrow>
   detect_loop a srv k n tx =
     (concat (replicate (Suc i) [Sleep 2, Http_get (swagger_url a)]), Inr (Some body))"
proof (induction n arbitrary: i k tx)
  case 0
  then show ?case by simp
next
  case (Suc n)
  show ?case
  proof (cases i)
    case 0
    with Suc.prems show ?thesis by simp
  next
    case (Suc m)
    have m: "m < n" using Suc.prems(1) Suc by simp
    have quiet: "\<forall>j<m. no_answer (srv (Suc k + j) (swagger_url a))"
    proof (intro allI impI)
      fix j assume "j < m"
      then have "Suc j < i" using Suc by simp
      with Suc.prems(2) have "no_answer (srv (k + Suc j) (swagger_url a))" by blast
      then show "no_answer (srv (Suc k + j) (swagger_url a))" by simp
    qed
    have ready: "srv (Suc k + m) (swagger_url a) = Response 200 body"
      using Suc.prems(3) Suc by simp
    have first: "no_answer (srv k (swagger_url a))"
      using Suc.prems(2) [rule_format, of 0] Suc by simp
    have rest: "detect_loop a srv (Suc k) n t =
        (concat (replicate (Suc m) [Sleep 2, Http_get (swagger_url a)]), Inr (Some body))" for t
      by (rule Suc.IH [OF m quiet ready])
    show ?thesis
      using first rest Suc by (cases "srv k (swagger_url a)") simp_all
  qed
qed

lemma detect_loop_exhausted:
  "\<forall>j<n. no_answer (srv (i + j) (swagger_url a)) \<Longrightarrow>
   \<exists>t. (t = None \<or> t = tx) \<and> detect_loop a srv i n tx =
     (concat (replicate n [Sleep 2, Http_get (swagger_url a)]), Inr t)"
proof (induction n arbitrary: i tx)
  case 0
  show ?case by simp
next
  case (Suc n)
  have h0: "no_answer (srv i (swagger_url a))" using Suc.prems by force
  have hs: "\<forall>j<n. no_answer (srv (Suc i + j) (swagger_url a))" using Suc.prems by force
  show ?case
    using h0 Suc.IH [OF hs, of tx] Suc.IH [OF hs, of None]
    by (cases "srv i (swagger_url a)") auto
qed

lemma detect_process_fst: "fst (detect_process a srv) = fst (detect_loop a srv 0 10 None)"
  by (simp add: detect_process_def split: prod.split sum.split option.split)

lemma marker_not_in_empty: "\<not> str_contains marker []"
  by (simp add: marker_def)

lemma messages_differ: "unexpected_msg \<noteq> timeout_msg"
  by (simp add: unexpected_msg_def timeout_msg_def)

lemma quiet_before_iff: "quiet_before srv u i \<longleftrightarrow> (\<forall>j<i. no_answer (srv j u))"
  by (auto simp add: quiet_before_def list_all_iff)

lemma never_ready_iff: "never_ready srv u \<longleftrightarrow> (\<forall>i<10. no_answer (srv i u))"
  by (auto simp add: never_ready_def list_all_iff)

lemma detect_process_first_200:
  assumes "i < 10" and "quiet_before srv (swagger_url a) i"
    and "srv i (swagger_url a) = Response 200 body"
  shows "detect_process a srv =
     (concat (replicate (Suc i) [Sleep 2, Http_get (swagger_url a)]),
      if body = [] then Inl (Exception timeout_msg)
      else if \<not> str_contains marker body then Inl (Exception unexpected_msg)
      else Inr ())"
proof -
  have "\<forall>j<i. no_answer (srv (0 + j) (swagger_url a))"
    using assms(2) by (simp add: quiet_before_iff)
  moreover have "srv (0 + i) (swagger_url a) = Response 200 body"
    using assms(3) by simp
  ultimately have "detect_loop a srv 0 10 None =
      (concat (replicate (Suc i) [Sleep 2, Http_get (swagger_url a)]), Inr (Some body))"
    using assms(1) by (rule detect_loop_first_200 [rotated])
  then show ?thesis by (simp add: detect_process_def)
qed

lemma detect_process_exhausted:
  assumes "\<forall>i<10. no_answer (srv i (swagger_url a))"
  shows "detect_process a srv =
     (concat (replicate 10 [Sleep 2, Http_get (swagger_url a)]), Inl (Exception timeout_msg))"
proof -
  have "\<forall>j<10. no_answer (srv (0 + j) (swagger_url a))" using assms by simp
  from detect_loop_exhausted [of 10 srv 0 a None] this
  have "detect_loop a srv 0 10 None =
      (concat (replicate 10 [Sleep 2, Http_get (swagger_url a)]), Inr None)" by simp
  then show ?thesis by (simp add: detect_process_def)
qed

text \<open>
  Claim C9. Poll \<open>i\<close> is made exactly when \<open>i < 10\<close> and the server gave no 200 and no
  exception other than \<^verbatim>\<open>ClientError\<close> to the polls before it. When the server answers
  such a poll with HTTP 200, the probe stops polling: its trace is those \<open>i + 1\<close> polls
  and nothing more. If the body is not empty and does not contain the marker
  \<^verbatim>\<open>Aries Cloud Agent\<close>, the probe raises the "Unexpected response" error, which is not
  the timeout error; if the body is empty, it raises the timeout error although a 200
  was received. The hypotheses speak of the server only.
\<close>

theorem detect_process_unexpected_or_empty:
  "i < 10 \<Longrightarrow> quiet_before srv (swagger_url a) i \<Longrightarrow>
   srv i (swagger_url a) = Response 200 body \<Longrightarrow>
   fst (detect_process a srv) =
     concat (replicate (Suc i) [Sleep 2, Http_get (swagger_url a)]) \<and>
   n_polls (fst (detect_process a srv)) = Suc i \<and>
   (body \<noteq> [] \<and> \<not> str_contains marker body \<longrightarrow>
      snd (detect_process a srv) = Inl (Exception unexpected_msg)) \<and>
   (body = [] \<longrightarrow> snd (detect_process a srv) = Inl (Exception timeout_msg)) \<and>
   Exception unexpected_msg \<noteq> Exception timeout_msg"
proof -
  assume h: "i < 10" "quiet_before srv (swagger_url a) i"
    "srv i (swagger_url a) = Response 200 body"
  note run = detect_process_first_200 [OF h]
  have "fst (detect_process a srv) =
      concat (replicate (Suc i) [Sleep 2, Http_get (swagger_url a)])"
    by (simp add: run)
  moreover have "n_polls (fst (detect_process a srv)) = Suc i"
    unfolding run fst_conv by (rule n_polls_replicate)
  moreover have "body \<noteq> [] \<and> \<not> str_contains marker body \<longrightarrow>
      snd (detect_process a srv) = Inl (Exception unexpected_msg)"
    by (simp add: run)
  moreover have "body = [] \<longrightarrow> snd (detect_process a srv) = Inl (Exception timeout_msg)"
    by (simp add: run)
  ultimately show ?thesis using messages_differ by simp
qed

text \<open>
  Claim C1, amended. Every run of the probe makes at most 10 polls, each a GET of
  \<^verbatim>\<open>/api/docs/swagger.json\<close> on the admin URL after a sleep of 2 seconds, and nothing
  else. It stops polling at the first poll that returns HTTP 200: when the server gives
  a 200 to poll \<open>i < 10\<close> and neither a 200 nor an exception other than
  \<^verbatim>\<open>ClientError\<close> to the polls before it, exactly \<open>i + 1\<close> polls are made. If the body
  of that 200 contains the marker, detection succeeds. If each of the 10 polls returns a
  status other than 200 or raises \<^verbatim>\<open>ClientError\<close>, all 10 are made and the probe fails
  with the timeout error. The hypotheses speak of the server only.
\<close>

theorem detect_process_polling:
  "n_polls (fst (detect_process a srv)) \<le> 10 \<and>
   fst (detect_process a srv) =
     concat (replicate (n_polls (fst (detect_process a srv)))
       [Sleep 2, Http_get (admin_url a @ ''/api/docs/swagger.json'')]) \<and>
   (i < 10 \<and> quiet_before srv (swagger_url a) i \<and>
    srv i (swagger_url a) = Response 200 body \<longrightarrow>
      n_polls (fst (detect_process a srv)) = Suc i) \<and>
   (i < 10 \<and> quiet_before srv (swagger_url a) i \<and>
    srv i (swagger_url a) = Response 200 body \<and> str_contains marker body \<longrightarrow>
      detect_process a srv =
        (concat (replicate (Suc i) [Sleep 2, Http_get (swagger_url a)]), Inr ())) \<and>
   (never_ready srv (swagger_url a) \<longrightarrow>
      n_polls (fst (detect_process a srv)) = 10 \<and>
      snd (detect_process a srv) = Inl (Exception timeout_msg))"
proof -
  have bound: "n_polls (fst (detect_process a srv)) \<le> 10"
    unfolding detect_process_fst by (rule detect_loop_bound)
  have shape: "fst (detect_process a srv) =
     concat (replicate (n_polls (fst (detect_process a srv)))
       [Sleep 2, Http_get (admin_url a @ ''/api/docs/swagger.json'')])"
    using detect_loop_trace [of a srv 0 10 None]
    by (simp only: detect_process_fst swagger_url_def)
  have stops: "n_polls (fst (detect_process a srv)) = Suc i"
    if "i < 10" and "quiet_before srv (swagger_url a) i"
      and "srv i (swagger_url a) = Response 200 body"
    unfolding detect_process_first_200 [OF that] fst_conv by (rule n_polls_replicate)
  have ready: "detect_process a srv =
      (concat (replicate (Suc i) [Sleep 2, Http_get (swagger_url a)]), Inr ())"
    if "i < 10" and "quiet_before srv (swagger_url a) i"
      and "srv i (swagger_url a) = Response 200 body" and "str_contains marker body"
  proof -
    have "body \<noteq> []" using that(4) marker_not_in_empty by auto
    then show ?thesis
      using that(4) by (simp add: detect_process_first_200 [OF that(1) that(2) that(3)])
  qed
  have timeout: "n_polls (fst (detect_process a srv)) = 10 \<and>
      snd (detect_process a srv) = Inl (Exception timeout_msg)"
    if "never_ready srv (swagger_url a)"
  proof -
    have "\<forall>i<10. no_answer (srv i (swagger_url a))"
      using that by (simp only: never_ready_iff)
    then have "detect_process a srv =
        (concat (replicate 10 [Sleep 2, Http_get (swagger_url a)]), Inl (Exception timeout_msg))"
      by (rule detect_process_exhausted)
    then show ?thesis by (simp add: n_polls_replicate)
  qed
  from bound shape stops ready timeout show ?thesis by blast
qed

lemma alice_admin_url: "admin_url alice = ''http://localhost:8021''"
  by (simp add: alice_def init_def module_defaults_def str_int_def str_nat.simps digit_char_def)

lemma alice_swagger_url: "swagger_url alice = ''http://localhost:8021/api/docs/swagger.json''"
  by (simp add: swagger_url_def alice_admin_url)

lemma run_starting: "detect_process alice srv_starting =
    ([Sleep 2, Http_get ''http://localhost:8021/api/docs/swagger.json''],
     Inl (Exception unexpected_msg))"
  by (simp add: detect_process_def eval_nat_numeral srv_starting_def alice_swagger_url marker_def)

lemma swagger_body_marker: "str_contains marker swagger_body"
  by (simp add: marker_def swagger_body_def)

lemma srv_down_never_ready: "never_ready srv_down u"
  by (simp add: never_ready_def srv_down_def upt_rec)

lemma srv_ready_third_quiet: "quiet_before srv_ready_third u 2"
  by (simp add: quiet_before_def srv_ready_third_def upt_rec)

lemma srv_late_quiet: "quiet_before (srv_late body) u 2"
  by (simp add: quiet_before_def srv_late_def upt_rec)

lemma three_polls:
  "concat (replicate (Suc 2) [Sleep 2, Http_get u]) =
     [Sleep 2, Http_get u, Sleep 2, Http_get u, Sleep 2, Http_get u]"
  by (simp add: eval_nat_numeral)

text \<open>
  Both hypotheses at work: a server that refuses the first two polls and is ready at the
  third, and one that never answers with a 200.
\<close>

theorem detect_process_polling_witness:
  "((2 :: nat) < 10 \<and> quiet_before srv_ready_third (swagger_url alice) 2 \<and>
    srv_ready_third 2 (swagger_url alice) = Response 200 swagger_body \<and>
    str_contains marker swagger_body \<and>
    n_polls (fst (detect_process alice srv_ready_third)) = 3 \<and>
    detect_process alice srv_ready_third =
      ([Sleep 2, Http_get (swagger_url alice), Sleep 2, Http_get (swagger_url alice),
        Sleep 2, Http_get (swagger_url alice)], Inr ())) \<and>
   (never_ready srv_down (swagger_url alice) \<and>
    n_polls (fst (detect_process alice srv_down)) = 10 \<and>
    snd (detect_process alice srv_down) = Inl (Exception timeout_msg))"
proof -
  have h0: "(2 :: nat) < 10" by simp
  have h1: "quiet_before srv_ready_third (swagger_url alice) 2"
    by (rule srv_ready_third_quiet)
  have h2: "srv_ready_third 2 (swagger_url alice) = Response 200 swagger_body"
    by (simp add: srv_ready_third_def alice_swagger_url)
  have h3: "never_ready srv_down (swagger_url alice)"
    by (rule srv_down_never_ready)
  from detect_process_polling [of alice srv_ready_third 2 swagger_body] h0 h1 h2 swagger_body_marker
  have c1: "n_polls (fst (detect_process alice srv_ready_third)) = Suc 2 \<and>
    detect_process alice srv_ready_third =
      (concat (replicate (Suc 2) [Sleep 2, Http_get (swagger_url alice)]), Inr ())" by blast
  from c1 have n: "n_polls (fst (detect_process alice srv_ready_third)) = 3"
    by (simp add: n_polls_replicate)
  from c1 have "detect_process alice srv_ready_third =
      ([Sleep 2, Http_get (swagger_url alice), Sleep 2, Http_get (swagger_url alice),
        Sleep 2, Http_get (swagger_url alice)], Inr ())"
    by (simp only: three_polls)
  with n have c1': "n_polls (fst (detect_process alice srv_ready_third)) = 3 \<and>
    detect_process alice srv_ready_third =
      ([Sleep 2, Http_get (swagger_url alice), Sleep 2, Http_get (swagger_url alice),
        Sleep 2, Http_get (swagger_url alice)], Inr ())"
    by (rule conjI)
  from detect_process_polling [of alice srv_down 0 "[]"] h3
  have c2: "n_polls (fst (detect_process alice srv_down)) = 10 \<and>
    snd (detect_process alice srv_down) = Inl (Exception timeout_msg)" by blast
  from h0 h1 h2 h3 swagger_body_marker c1' c2 show ?thesis by blast
qed

text \<open>
  Claim C1 as stated has only two outcomes, success or timeout. A server whose first
  answer is a 200 without the marker gets neither: one poll is made, no poll returned the
  marker, and the error is not the timeout error.
\<close>

theorem detect_process_dichotomy_counterexample:
  "fst (detect_process alice srv_starting) =
     [Sleep 2, Http_get ''http://localhost:8021/api/docs/swagger.json''] \<and>
   srv_starting 0 ''http://localhost:8021/api/docs/swagger.json'' = Response 200 ''starting'' \<and>
   \<not> str_contains marker ''starting'' \<and>
   snd (detect_process alice srv_starting) \<noteq> Inr () \<and>
   snd (detect_process alice srv_starting) \<noteq> Inl (Exception timeout_msg)"
  by (simp add: run_starting srv_starting_def marker_def unexpected_msg_def timeout_msg_def)

text \<open>
  The two cases of C9 at the third poll, after a refused connection and a 503: three
  polls are made, and the error depends on the body of the 200.
\<close>

theorem detect_process_unexpected_or_empty_witness:
  "((2 :: nat) < 10 \<and> quiet_before (srv_late ''starting'') (swagger_url alice) 2 \<and>
    srv_late ''starting'' 2 (swagger_url alice) = Response 200 ''starting'' \<and>
    ''starting'' \<noteq> [] \<and> \<not> str_contains marker ''starting'' \<and>
    detect_process alice (srv_late ''starting'') =
      ([Sleep 2, Http_get (swagger_url alice), Sleep 2, Http_get (swagger_url alice),
        Sleep 2, Http_get (swagger_url alice)], Inl (Exception unexpected_msg))) \<and>
   (quiet_before (srv_late []) (swagger_url alice) 2 \<and>
    srv_late [] 2 (swagger_url alice) = Response 200 [] \<and>
    detect_process alice (srv_late []) =
      ([Sleep 2, Http_get (swagger_url alice), Sleep 2, Http_get (swagger_url alice),
        Sleep 2, Http_get (swagger_url alice)], Inl (Exception timeout_msg)))"
proof -
  have h0: "(2 :: nat) < 10" by simp
  have h1: "quiet_before (srv_late ''starting'') (swagger_url alice) 2"
    by (rule srv_late_quiet)
  have h2: "srv_late ''starting'' 2 (swagger_url alice) = Response 200 ''starting''"
    by (simp add: srv_late_def)
  have h3: "''starting'' \<noteq> [] \<and> \<not> str_contains marker ''starting''"
    by (simp add: marker_def)
  have h4: "quiet_before (srv_late []) (swagger_url alice) 2"
    by (rule srv_late_quiet)
  have h5: "srv_late [] 2 (swagger_url alice) = Response 200 []"
    by (simp add: srv_late_def)
  from detect_process_unexpected_or_empty [OF h0 h1 h2] h3
  have "fst (detect_process alice (srv_late ''starting'')) =
      concat (replicate (Suc 2) [Sleep 2, Http_get (swagger_url alice)]) \<and>
    snd (detect_process alice (srv_late ''starting'')) = Inl (Exception unexpected_msg)" by blast
  then have c1: "detect_process alice (srv_late ''starting'') =
      ([Sleep 2, Http_get (swagger_url alice), Sleep 2, Http_get (swagger_url alice),
        Sleep 2, Http_get (swagger_url alice)], Inl (Exception unexpected_msg))"
    by (simp only: three_polls prod_eq_iff fst_conv snd_conv)
  from detect_process_unexpected_or_empty [OF h0 h4 h5]
  have "fst (detect_process alice (srv_late [])) =
      concat (replicate (Suc 2) [Sleep 2, Http_get (swagger_url alice)]) \<and>
    snd (detect_process alice (srv_late [])) = Inl (Exception timeout_msg)" by blast
  then have c2: "detect_process alice (srv_late []) =
      ([Sleep 2, Http_get (swagger_url alice), Sleep 2, Http_get (swagger_url alice),
        Sleep 2, Http_get (swagger_url alice)], Inl (Exception timeout_msg))"
    by (simp only: three_polls prod_eq_iff fst_conv snd_conv)
  from h0 h1 h2 h3 h4 h5 c1 c2 show ?thesis by blast
qed

section \<open>Admin requests: results and errors\<close>

lemma str_int_404: "str_int 404 = ''404''"
  by (simp add: str_int_def str_nat.simps digit_char_def)

text \<open>
  Claim C2, amended. A 404 response makes \<open>admin_request\<close> raise, whatever the mode. In
  the default mode (\<^verbatim>\<open>text=False\<close>) a 200 response with an empty body yields
  \<^verbatim>\<open>None\<close>, and a 200 response with a non-empty body that decodes as JSON yields the
  decoded value. In text mode (\<^verbatim>\<open>text=True\<close>) a 200 response yields the body text as it
  is. \<open>admin_GET\<close> and \<open>admin_POST\<close> are \<open>admin_request\<close> with the method filled in.
\<close>

theorem admin_request_results:
  "(http \<lparr>rq_method = method, rq_url = admin_url a @ path, rq_json = data\<rparr> = Response 404 body \<longrightarrow>
      admin_request json_loads http a method path data text_mode =
        Inl (Exception ''Unexpected HTTP response: 404'')) \<and>
   (http \<lparr>rq_method = method, rq_url = admin_url a @ path, rq_json = data\<rparr> = Response 200 [] \<longrightarrow>
      admin_request json_loads http a method path data False = Inr PyNone) \<and>
   (http \<lparr>rq_method = method, rq_url = admin_url a @ path, rq_json = data\<rparr> = Response 200 body \<and>
    body \<noteq> [] \<and> json_loads body = Some v \<longrightarrow>
      admin_request json_loads http a method path data False = Inr v) \<and>
   (http \<lparr>rq_method = method, rq_url = admin_url a @ path, rq_json = data\<rparr> = Response 200 body \<longrightarrow>
      admin_request json_loads http a method path data True = Inr (PyStr body)) \<and>
   admin_GET json_loads http a path text_mode =
     admin_request json_loads http a ''GET'' path PyNone text_mode \<and>
   admin_POST json_loads http a path data text_mode =
     admin_request json_loads http a ''POST'' path data text_mode"
  by (simp add: admin_request_def admin_GET_def admin_POST_def str_int_404)

text \<open>The four cases on sample responses.\<close>

theorem admin_request_results_witness:
  "(peer_of 404 ''Not Found'' \<lparr>rq_method = ''GET'', rq_url = admin_url alice @ ''/nothing'', rq_json = PyNone\<rparr>
      = Response 404 ''Not Found'' \<and>
    admin_request loads_sample (peer_of 404 ''Not Found'') alice ''GET'' ''/nothing'' PyNone False =
      Inl (Exception ''Unexpected HTTP response: 404'')) \<and>
   (peer_of 200 [] \<lparr>rq_method = ''POST'', rq_url = admin_url alice @ ''/status/reset'', rq_json = PyNone\<rparr>
      = Response 200 [] \<and>
    admin_request loads_sample (peer_of 200 []) alice ''POST'' ''/status/reset'' PyNone False = Inr PyNone) \<and>
   (peer_of 200 ''{\"state\":\"active\"}''
      \<lparr>rq_method = ''GET'', rq_url = admin_url alice @ ''/connections/1'', rq_json = PyNone\<rparr>
      = Response 200 ''{\"state\":\"active\"}'' \<and>
    ''{\"state\":\"active\"}'' \<noteq> [] \<and>
    loads_sample ''{\"state\":\"active\"}'' = Some (PyDict [(''state'', PyStr ''active'')]) \<and>
    admin_request loads_sample (peer_of 200 ''{\"state\":\"active\"}'') alice ''GET'' ''/connections/1''
      PyNone False = Inr (PyDict [(''state'', PyStr ''active'')])) \<and>
   admin_request loads_sample (peer_of 200 ''{\"state\":\"active\"}'') alice ''GET'' ''/connections/1''
      PyNone True = Inr (PyStr ''{\"state\":\"active\"}'')"
proof -
  have h1: "peer_of 404 ''Not Found''
      \<lparr>rq_method = ''GET'', rq_url = admin_url alice @ ''/nothing'', rq_json = PyNone\<rparr>
      = Response 404 ''Not Found''"
    by (simp add: peer_of_def)
  have h2: "peer_of 200 []
      \<lparr>rq_method = ''POST'', rq_url = admin_url alice @ ''/status/reset'', rq_json = PyNone\<rparr>
      = Response 200 []"
    by (simp add: peer_of_def)
  have h3: "peer_of 200 ''{\"state\":\"active\"}''
      \<lparr>rq_method = ''GET'', rq_url = admin_url alice @ ''/connections/1'', rq_json = PyNone\<rparr>
      = Response 200 ''{\"state\":\"active\"}''"
    by (simp add: peer_of_def)
  have h4: "''{\"state\":\"active\"}'' \<noteq> [] \<and>
      loads_sample ''{\"state\":\"active\"}'' = Some (PyDict [(''state'', PyStr ''active'')])"
    by (simp add: loads_sample_def)
  from admin_request_results
    [of "peer_of 404 ''Not Found''" "''GET''" alice "''/nothing''" PyNone "''Not Found''"
        loads_sample False] h1
  have c1: "admin_request loads_sample (peer_of 404 ''Not Found'') alice ''GET'' ''/nothing'' PyNone False =
      Inl (Exception ''Unexpected HTTP response: 404'')" by blast
  from admin_request_results
    [of "peer_of 200 []" "''POST''" alice "''/status/reset''" PyNone "[]" loads_sample] h2
  have c2: "admin_request loads_sample (peer_of 200 []) alice ''POST'' ''/status/reset'' PyNone False =
      Inr PyNone" by blast
  from admin_request_results
    [of "peer_of 200 ''{\"state\":\"active\"}''" "''GET''" alice "''/connections/1''" PyNone
        "''{\"state\":\"active\"}''" loads_sample False "PyDict [(''state'', PyStr ''active'')]"] h3 h4
  have c3: "admin_request loads_sample (peer_of 200 ''{\"state\":\"active\"}'') alice ''GET''
      ''/connections/1'' PyNone False = Inr (PyDict [(''state'', PyStr ''active'')]) \<and>
    admin_request loads_sample (peer_of 200 ''{\"state\":\"active\"}'') alice ''GET''
      ''/connections/1'' PyNone True = Inr (PyStr ''{\"state\":\"active\"}'')" by blast
  from h1 h2 h3 h4 c1 c2 c3 show ?thesis by blast
qed

text \<open>
  Claim C2 as stated covers every call. In text mode, which \<open>reset_timing\<close> uses, an
  empty 200 body yields the empty string and not \<^verbatim>\<open>None\<close>, and a JSON body yields its
  text and not the decoded value.
\<close>

theorem admin_request_text_mode_counterexample:
  "admin_POST loads_sample (peer_of 200 []) alice ''/status/reset'' PyNone True = Inr (PyStr []) \<and>
   PyStr [] \<noteq> PyNone \<and>
   loads_sample ''[]'' = Some (PyList []) \<and>
   admin_GET loads_sample (peer_of 200 ''[]'') alice ''/connections'' True = Inr (PyStr ''[]'') \<and>
   PyStr ''[]'' \<noteq> PyList []"
  by (simp add: admin_POST_def admin_GET_def admin_request_def peer_of_def loads_sample_def)




section \<open>Webhooks: dispatch and response\<close>

lemma loads_active: "loads_sample active_body = Some active_payload"
  by (simp add: loads_sample_def active_body_def active_payload_def)

text \<open>
  Claim C8. For the topic \<^verbatim>\<open>webhook\<close>, \<open>handle_webhook\<close> invokes no handler and returns,
  whatever attributes exist, \<^verbatim>\<open>handle_webhook\<close> among them. For any other topic with no
  attribute \<^verbatim>\<open>handle_{topic}\<close> it invokes nothing and returns without error.
\<close>

theorem handle_webhook_guard:
  "handle_webhook getattr_self ''webhook'' payload = ([], Inr ()) \<and>
   (topic \<noteq> ''webhook'' \<and> getattr_self (''handle_'' @ topic) = None \<longrightarrow>
      handle_webhook getattr_self topic payload = ([], Inr ()))"
  by (simp add: handle_webhook_def)

text \<open>A table that has \<^verbatim>\<open>handle_webhook\<close>, and a topic it has no handler for.\<close>

theorem handle_webhook_guard_witness:
  "sample_attrs ''handle_webhook'' \<noteq> None \<and>
   handle_webhook sample_attrs ''webhook'' active_payload = ([], Inr ()) \<and>
   ''basicmessages'' \<noteq> ''webhook'' \<and>
   sample_attrs (''handle_'' @ ''basicmessages'') = None \<and>
   handle_webhook sample_attrs ''basicmessages'' active_payload = ([], Inr ())"
proof -
  have h1: "sample_attrs ''handle_webhook'' \<noteq> None"
    by (simp add: sample_attrs_def)
  have h2: "''basicmessages'' \<noteq> ''webhook'' \<and> sample_attrs (''handle_'' @ ''basicmessages'') = None"
    by (simp add: sample_attrs_def)
  from handle_webhook_guard [of sample_attrs active_payload "''basicmessages''"] h2
  have "handle_webhook sample_attrs ''webhook'' active_payload = ([], Inr ()) \<and>
    handle_webhook sample_attrs ''basicmessages'' active_payload = ([], Inr ())" by blast
  with h1 h2 show ?thesis by blast
qed

text \<open>
  Claim C4, amended. For a POST to \<^verbatim>\<open>/webhooks/topic/{topic}/\<close> whose body decodes as
  JSON: if the topic is not \<^verbatim>\<open>webhook\<close> and the agent has an attribute
  \<^verbatim>\<open>handle_{topic}\<close>, that handler is invoked exactly once, with the decoded payload, and
  nothing else is invoked; when it returns, the response is 200 with an empty body. If
  the topic is \<^verbatim>\<open>webhook\<close> or there is no such attribute, nothing is invoked and the
  response is 200 with an empty body. If the body does not decode, nothing is invoked and
  the decoder's exception leaves the handler. Every response that is returned is 200
  with an empty body.
\<close>

theorem receive_webhook_dispatch:
  "(json_loads (rq_body request) = Some payload \<and> match_info_topic request \<noteq> ''webhook'' \<and>
    getattr_self (''handle_'' @ match_info_topic request) = Some method \<longrightarrow>
      fst (receive_webhook json_loads getattr_self request) =
        [Call (''handle_'' @ match_info_topic request) payload] \<and>
      (method payload = None \<longrightarrow>
         snd (receive_webhook json_loads getattr_self request) =
           Inr \<lparr>rs_status = 200, rs_text = []\<rparr>)) \<and>
   (json_loads (rq_body request) = Some payload \<and>
    (match_info_topic request = ''webhook'' \<or>
     getattr_self (''handle_'' @ match_info_topic request) = None) \<longrightarrow>
      receive_webhook json_loads getattr_self request =
        ([], Inr \<lparr>rs_status = 200, rs_text = []\<rparr>)) \<and>
   (json_loads (rq_body request) = None \<longrightarrow>
      receive_webhook json_loads getattr_self request = ([], Inl JSONDecodeError)) \<and>
   (snd (receive_webhook json_loads getattr_self request) = Inr resp \<longrightarrow>
      resp = \<lparr>rs_status = 200, rs_text = []\<rparr>)"
  by (auto simp add: receive_webhook_def handle_webhook_def web_Response_def
      split: option.splits sum.splits prod.splits)

text \<open>
  The example of the specification, the topic \<^verbatim>\<open>webhook\<close>, a topic without a handler,
  and a body that does not decode.
\<close>

theorem receive_webhook_dispatch_witness:
  "(loads_sample active_body = Some active_payload \<and> ''connections'' \<noteq> ''webhook'' \<and>
    sample_attrs (''handle_'' @ ''connections'') \<noteq> None \<and>
    receive_webhook loads_sample sample_attrs
        \<lparr>match_info_topic = ''connections'', rq_body = active_body\<rparr> =
      ([Call ''handle_connections'' active_payload], Inr \<lparr>rs_status = 200, rs_text = []\<rparr>)) \<and>
   receive_webhook loads_sample sample_attrs
       \<lparr>match_info_topic = ''webhook'', rq_body = active_body\<rparr> =
     ([], Inr \<lparr>rs_status = 200, rs_text = []\<rparr>) \<and>
   (sample_attrs (''handle_'' @ ''basicmessages'') = None \<and>
    receive_webhook loads_sample sample_attrs
        \<lparr>match_info_topic = ''basicmessages'', rq_body = active_body\<rparr> =
      ([], Inr \<lparr>rs_status = 200, rs_text = []\<rparr>)) \<and>
   (loads_sample ''{'' = None \<and>
    receive_webhook loads_sample sample_attrs
        \<lparr>match_info_topic = ''connections'', rq_body = ''{''\<rparr> = ([], Inl JSONDecodeError))"
proof -
  let ?conn = "\<lparr>match_info_topic = ''connections'', rq_body = active_body\<rparr>"
  let ?hook = "\<lparr>match_info_topic = ''webhook'', rq_body = active_body\<rparr>"
  let ?basic = "\<lparr>match_info_topic = ''basicmessages'', rq_body = active_body\<rparr>"
  let ?bad = "\<lparr>match_info_topic = ''connections'', rq_body = ''{''\<rparr>"
  have a1: "sample_attrs (''handle_'' @ ''connections'') \<noteq> None"
    by (simp add: sample_attrs_def)
  have a2: "sample_attrs (''handle_'' @ ''basicmessages'') = None"
    by (simp add: sample_attrs_def)
  have l2: "loads_sample ''{'' = None"
    by (simp add: loads_sample_def)
  have r1: "loads_sample (rq_body ?conn) = Some active_payload \<and>
      match_info_topic ?conn \<noteq> ''webhook'' \<and>
      sample_attrs (''handle_'' @ match_info_topic ?conn) = Some returns"
    by (simp add: loads_active sample_attrs_def)
  have r2: "returns active_payload = None"
    by (simp add: returns_def)
  have r3: "loads_sample (rq_body ?hook) = Some active_payload \<and>
      (match_info_topic ?hook = ''webhook'' \<or>
       sample_attrs (''handle_'' @ match_info_topic ?hook) = None)"
    by (simp add: loads_active)
  have r4: "loads_sample (rq_body ?basic) = Some active_payload \<and>
      (match_info_topic ?basic = ''webhook'' \<or>
       sample_attrs (''handle_'' @ match_info_topic ?basic) = None)"
    by (simp add: loads_active sample_attrs_def)
  have r5: "loads_sample (rq_body ?bad) = None"
    by (simp add: loads_sample_def)
  from receive_webhook_dispatch [of loads_sample ?conn active_payload sample_attrs returns] r1 r2
  have c1: "fst (receive_webhook loads_sample sample_attrs ?conn) =
      [Call (''handle_'' @ match_info_topic ?conn) active_payload] \<and>
    snd (receive_webhook loads_sample sample_attrs ?conn) = Inr \<lparr>rs_status = 200, rs_text = []\<rparr>"
    by blast
  from receive_webhook_dispatch [of loads_sample ?hook active_payload sample_attrs] r3
  have c2: "receive_webhook loads_sample sample_attrs ?hook =
      ([], Inr \<lparr>rs_status = 200, rs_text = []\<rparr>)" by blast
  from receive_webhook_dispatch [of loads_sample ?basic active_payload sample_attrs] r4
  have c3: "receive_webhook loads_sample sample_attrs ?basic =
      ([], Inr \<lparr>rs_status = 200, rs_text = []\<rparr>)" by blast
  from receive_webhook_dispatch [of loads_sample ?bad active_payload sample_attrs] r5
  have c4: "receive_webhook loads_sample sample_attrs ?bad = ([], Inl JSONDecodeError)" by blast
  from c1 have c1': "receive_webhook loads_sample sample_attrs ?conn =
      ([Call ''handle_connections'' active_payload], Inr \<lparr>rs_status = 200, rs_text = []\<rparr>)"
    by (simp add: prod_eq_iff)
  have n: "''connections'' \<noteq> ''webhook''" by simp
  from loads_active n a1 a2 l2 c1' c2 c3 c4 show ?thesis by blast
qed

text \<open>
  Claim C4 as stated: every POST invokes its handler once and is answered with 200. A
  body that does not decode invokes nothing and is not answered with a response; the
  topic \<^verbatim>\<open>webhook\<close> invokes nothing although \<^verbatim>\<open>handle_webhook\<close> exists; the topic
  \<^verbatim>\<open>output\<close> invokes \<^verbatim>\<open>handle_output\<close> and ends in \<^verbatim>\<open>TypeError\<close>.
\<close>

theorem receive_webhook_always_counterexample:
  "receive_webhook loads_sample sample_attrs
       \<lparr>match_info_topic = ''connections'', rq_body = ''{''\<rparr> = ([], Inl JSONDecodeError) \<and>
   sample_attrs ''handle_webhook'' \<noteq> None \<and>
   fst (receive_webhook loads_sample sample_attrs
       \<lparr>match_info_topic = ''webhook'', rq_body = active_body\<rparr>) = [] \<and>
   receive_webhook loads_sample sample_attrs
       \<lparr>match_info_topic = ''output'', rq_body = active_body\<rparr> =
     ([Call ''handle_output'' active_payload], Inl TypeError)"
  by (simp add: receive_webhook_def handle_webhook_def sample_attrs_def loads_sample_def
      active_body_def active_payload_def raises_def)

section \<open>Terminating the process\<close>

text \<open>
  Claim C6. With a child process that is still running, \<open>terminate_proc\<close> signals it and
  then waits for it with a timeout of half a second, and does nothing else before it
  returns or raises. If the wait times out it raises the error
  "Process did not terminate in time", and \<open>terminate\<close> passes that error on without
  closing anything; if the process exits in time it returns.
\<close>

theorem terminate_proc_waits:
  "proc a = Some p \<Longrightarrow> returncode p = None \<Longrightarrow>
   fst (snd (terminate_proc a w)) = [Proc_terminate, Proc_wait (1 / 2)] \<and>
   (w = TimeoutExpired \<longrightarrow>
      snd (snd (terminate_proc a w)) = Inl (Exception ''Process did not terminate in time'') \<and>
      terminate a w =
        (a, [Proc_terminate, Proc_wait (1 / 2)],
         Inl (Exception ''Process did not terminate in time''))) \<and>
   (w = Exits rc \<longrightarrow>
      snd (snd (terminate_proc a w)) = Inr () \<and>
      proc (fst (terminate_proc a w)) = Some (p\<lparr>returncode := Some rc\<rparr>))"
  by (cases w) (simp_all add: terminate_proc_def terminate_def terminate_msg_def)

text \<open>A running process that ignores the signal, and one that exits with code 0.\<close>

theorem terminate_proc_waits_witness:
  "proc alice_running = Some \<lparr>returncode = None\<rparr> \<and>
   returncode \<lparr>returncode = None\<rparr> = None \<and>
   terminate_proc alice_running TimeoutExpired =
     (alice_running, [Proc_terminate, Proc_wait (1 / 2)],
      Inl (Exception ''Process did not terminate in time'')) \<and>
   terminate alice_running TimeoutExpired =
     (alice_running, [Proc_terminate, Proc_wait (1 / 2)],
      Inl (Exception ''Process did not terminate in time'')) \<and>
   fst (snd (terminate_proc alice_running (Exits 0))) = [Proc_terminate, Proc_wait (1 / 2)] \<and>
   snd (snd (terminate_proc alice_running (Exits 0))) = Inr ()"
proof -
  have h1: "proc alice_running = Some \<lparr>returncode = None\<rparr>"
    by (simp add: alice_running_def)
  have h2: "returncode \<lparr>returncode = None\<rparr> = None"
    by simp
  have f: "fst (terminate_proc alice_running TimeoutExpired) = alice_running"
    by (simp add: terminate_proc_def h1)
  from terminate_proc_waits [OF h1 h2, of TimeoutExpired] f
  have c1: "terminate_proc alice_running TimeoutExpired =
     (alice_running, [Proc_terminate, Proc_wait (1 / 2)],
      Inl (Exception ''Process did not terminate in time'')) \<and>
   terminate alice_running TimeoutExpired =
     (alice_running, [Proc_terminate, Proc_wait (1 / 2)],
      Inl (Exception ''Process did not terminate in time''))"
    by (simp add: prod_eq_iff)
  from terminate_proc_waits [OF h1 h2, of "Exits 0" 0]
  have c2: "fst (snd (terminate_proc alice_running (Exits 0))) = [Proc_terminate, Proc_wait (1 / 2)] \<and>
   snd (snd (terminate_proc alice_running (Exits 0))) = Inr ()" by simp
  from h1 h2 c1 c2 show ?thesis by blast
qed

section \<open>The URL fields\<close>

lemma step_frame:
  "endpoint (step opn a) = endpoint a \<and> admin_url (step opn a) = admin_url a \<and>
   external_host (step opn a) = external_host a"
proof (cases opn)
  case (Op_register_did json_loads http ledger_url al)
  then show ?thesis
    by (simp add: register_did_def Let_def split: http_outcome.split option.split sum.split)
next
  case (Op_start_process p srv wait)
  then show ?thesis by (simp add: start_process_def Let_def split: prod.split)
next
  case (Op_terminate_proc w)
  then show ?thesis
    by (simp add: terminate_proc_def split: option.split wait_outcome.split)
next
  case (Op_terminate w)
  then show ?thesis
    by (simp add: terminate_def terminate_proc_def close_all_def
        split: option.split wait_outcome.split)
next
  case (Op_listen_webhooks port)
  then show ?thesis by (simp add: listen_webhooks_def)
next
  case Op_other
  then show ?thesis by simp
qed

lemma run_frame:
  "endpoint (run ops a) = endpoint a \<and> admin_url (run ops a) = admin_url a \<and>
   external_host (run ops a) = external_host a"
  unfolding run_def
proof (induction ops arbitrary: a)
  case Nil
  show ?case by simp
next
  case (Cons opn ops)
  show ?case using Cons.IH [of "step opn a"] step_frame [of opn a] by simp
qed

text \<open>
  Claim C7, amended. \<open>endpoint\<close> and \<open>admin_url\<close> are derived at construction from the
  external host and the two ports, and no sequence of operations changes them (nor the
  host they were derived from). \<open>webhook_url\<close> is \<^verbatim>\<open>None\<close> at construction; each
  \<open>listen_webhooks\<close> assigns it, from the external host and the port of that call.
\<close>

theorem url_fields:
  "endpoint (init dflt rand ident_arg hp ap ih eh lb co pr sd) =
     ''http://'' @ str_or eh (DEFAULT_EXTERNAL_HOST dflt) @ '':'' @ str_int hp \<and>
   admin_url (init dflt rand ident_arg hp ap ih eh lb co pr sd) =
     ''http://'' @ str_or eh (DEFAULT_EXTERNAL_HOST dflt) @ '':'' @ str_int ap \<and>
   webhook_url (init dflt rand ident_arg hp ap ih eh lb co pr sd) = None \<and>
   endpoint (run ops a) = endpoint a \<and>
   admin_url (run ops a) = admin_url a \<and>
   external_host (run ops a) = external_host a \<and>
   webhook_url (listen_webhooks a port) =
     Some (''http://'' @ external_host a @ '':'' @ str_int port @ ''/webhooks'')"
  using run_frame [of ops a] by (simp add: init_def Let_def listen_webhooks_def)

text \<open>
  Claim C7 as stated: the webhook URL is not there after construction, a later
  operation assigns it, and another one assigns it again.
\<close>

theorem webhook_url_counterexample:
  "webhook_url alice = None \<and>
   webhook_url (run [Op_listen_webhooks 8022] alice) = Some ''http://localhost:8022/webhooks'' \<and>
   webhook_url (run [Op_other, Op_listen_webhooks 8022, Op_listen_webhooks 8030] alice) =
     Some ''http://localhost:8030/webhooks''"
  by (simp add: run_def listen_webhooks_def alice_def init_def module_defaults_def
      str_int_def str_nat.simps digit_char_def)

section \<open>The timing report: order and layout\<close>

lemma sort_reverse_descending:
  "sorted_wrt (\<lambda>x y. key y \<le> key x) (sort_reverse key xs)"
proof -
  have "sorted (map key (sort_key key (rev xs)))"
    by (rule sorted_sort_key)
  then have "sorted_wrt (\<lambda>x y. key x \<le> key y) (sort_key key (rev xs))"
    by (simp add: sorted_map)
  then show ?thesis
    unfolding sort_reverse_def by (simp add: sorted_wrt_rev)
qed

lemma sort_reverse_mset: "mset (sort_reverse key xs) = mset xs"
  by (simp add: sort_reverse_def)

lemma sort_reverse_stable:
  "filter (\<lambda>x. key x = k) (sort_reverse key xs) = filter (\<lambda>x. key x = k) xs"
proof -
  have "filter (\<lambda>x. key x = k) (sort_key key (rev xs)) = filter (\<lambda>x. key x = k) (rev xs)"
    by (rule sort_key_stable)
  then show ?thesis
    unfolding sort_reverse_def by (simp add: rev_filter [symmetric])
qed

lemma build_rows_entries:
  "list_all (has_all t) items \<Longrightarrow> build_rows t items = Inr (map (row_of_entry t) items)"
proof (induction items)
  case Nil
  show ?case by simp
next
  case (Cons item items)
  obtain name cnt where item: "item = (name, cnt)" by (cases item)
  from Cons.prems item have here: "has_all t (name, cnt)" and rest: "list_all (has_all t) items"
    by simp_all
  from here obtain tot av mn mx where
    "map_of (t_total t) name = Some tot" "map_of (t_avg t) name = Some av"
    "map_of (t_min t) name = Some mn" "map_of (t_max t) name = Some mx"
    by auto
  with Cons.IH [OF rest] item show ?case
    by (simp add: subscript_def)
qed

lemma row_of_entry_name: "length (fst (row_of_entry t e)) \<le> 35"
  by (cases e) simp

lemma length_ljust: "length (ljust w s) = max w (length s)"
  by (simp add: ljust_def max_def)

lemma length_rjust: "length (rjust w s) = max w (length s)"
  by (simp add: rjust_def max_def)

lemma length_format_row:
  "length (format_row (name, cnt, tot, av, mn, mx)) =
     max 35 (length name) + max 12 (length (str_int cnt)) + max 12 (length (str_3f tot)) +
     max 10 (length (str_3f av)) + max 10 (length (str_3f mn)) + max 10 (length (str_3f mx)) + 7"
  by (simp add: length_ljust length_rjust)

lemma format_row_width:
  assumes "length (fst r) \<le> 35"
  shows "96 \<le> length (format_row r) \<and> (fits r \<longleftrightarrow> length (format_row r) = 96)"
proof -
  obtain name cnt tot av mn mx where r: "r = (name, cnt, tot, av, mn, mx)"
    by (cases r)
  from assms r have n: "max 35 (length name) = 35" by simp
  show ?thesis
    unfolding r length_format_row n by (simp only: fits.simps) linarith
qed

lemma length_header_line: "length header_line = 96"
  by (simp add: header_line_def length_ljust length_rjust)

text \<open>
  Claim C5, amended. For a timing dictionary in which every counted metric has its total,
  average, minimum and maximum, \<open>format_timing\<close> yields the header, a rule of 96
  characters, one line for each row and an empty line. The rows are the entries of the
  count dictionary (names cut to 35 characters), in descending order of total, entries
  of equal total in the order of the dictionary. Every data row has the layout of
  \<open>format_row\<close>: it is at least 96 characters wide, as wide as the header and the rule, and
  exactly 96 wide if and only if each of its numbers fits the width of its column.
\<close>

theorem format_timing_layout:
  "complete t \<Longrightarrow>
   (\<exists>rows.
      format_timing t =
        Inr ([header_line, replicate 96 CHR ''=''] @ map format_row rows @ [[]]) \<and>
      mset rows = mset (map (row_of_entry t) (t_count t)) \<and>
      sorted_wrt (\<lambda>r s. row_total s \<le> row_total r) rows \<and>
      (\<forall>k. filter (\<lambda>r. row_total r = k) rows =
           filter (\<lambda>r. row_total r = k) (map (row_of_entry t) (t_count t))) \<and>
      (\<forall>r\<in>set rows. 96 \<le> length (format_row r) \<and>
           (fits r \<longleftrightarrow> length (format_row r) = 96))) \<and>
   length header_line = 96"
proof -
  assume "complete t"
  then have built: "build_rows t (t_count t) = Inr (map (row_of_entry t) (t_count t))"
    unfolding complete_def by (rule build_rows_entries)
  define rows where "rows = sort_reverse row_total (map (row_of_entry t) (t_count t))"
  have lines: "format_timing t =
      Inr ([header_line, replicate 96 CHR ''=''] @ map format_row rows @ [[]])"
    by (simp add: format_timing_def sorted_rows_def built rows_def)
  have same: "mset rows = mset (map (row_of_entry t) (t_count t))"
    unfolding rows_def by (rule sort_reverse_mset)
  have order: "sorted_wrt (\<lambda>r s. row_total s \<le> row_total r) rows"
    unfolding rows_def by (rule sort_reverse_descending)
  have stable: "\<forall>k. filter (\<lambda>r. row_total r = k) rows =
      filter (\<lambda>r. row_total r = k) (map (row_of_entry t) (t_count t))"
    unfolding rows_def by (simp add: sort_reverse_stable)
  have "set rows = set (map (row_of_entry t) (t_count t))"
    using same by (rule mset_eq_setD)
  then have "\<forall>r\<in>set rows. length (fst r) \<le> 35"
    using row_of_entry_name by auto
  then have width: "\<forall>r\<in>set rows. 96 \<le> length (format_row r) \<and>
      (fits r \<longleftrightarrow> length (format_row r) = 96)"
    using format_row_width by blast
  from lines same order stable width length_header_line show ?thesis by blast
qed

lemma floor_numeral_quotient: "\<lfloor>numeral a / numeral b :: rat\<rfloor> = numeral a div numeral b"
  using floor_divide_of_int_eq [of "numeral a" "numeral b", where ?'a = rat] by simp

lemma replicate_numeral: "replicate (numeral k) x = x # replicate (pred_numeral k) x"
  by (simp add: numeral_eq_Suc)

lemma str_3f_nonneg:
  "0 \<le> x \<Longrightarrow> round_half_even (x * 1000) = m \<Longrightarrow>
   str_3f x = str_int (m div 1000) @ ''.'' @ rjust_zero 3 (str_int (m mod 1000))"
  by (simp add: str_3f_def Let_def)

lemma round_half_even_numeral: "round_half_even (numeral k) = numeral k"
  by (simp add: round_half_even_def Let_def)

lemma round_half_even_0: "round_half_even 0 = 0"
  by (simp add: round_half_even_def Let_def)

lemma round_5000_7: "round_half_even (5000 / 7) = 714"
  by (simp add: round_half_even_def Let_def floor_numeral_quotient)

lemmas eval_digits = str_int_def str_nat.simps digit_char_def rjust_zero_def replicate_numeral

lemma str_3f_0: "str_3f 0 = ''0.000''"
  using str_3f_nonneg [of 0 0] by (simp add: round_half_even_0 eval_digits)

lemma str_3f_1: "str_3f 1 = ''1.000''"
  using str_3f_nonneg [of 1 1000] by (simp add: round_half_even_numeral eval_digits)

lemma str_3f_2: "str_3f 2 = ''2.000''"
  using str_3f_nonneg [of 2 2000] by (simp add: round_half_even_numeral eval_digits)

lemma str_3f_5: "str_3f 5 = ''5.000''"
  using str_3f_nonneg [of 5 5000] by (simp add: round_half_even_numeral eval_digits)

lemma str_3f_half: "str_3f (1 / 2) = ''0.500''"
  using str_3f_nonneg [of "1 / 2" 500] by (simp add: round_half_even_numeral eval_digits)

lemma str_3f_3_4: "str_3f (3 / 4) = ''0.750''"
  using str_3f_nonneg [of "3 / 4" 750] by (simp add: round_half_even_numeral eval_digits)

lemma str_3f_3_2: "str_3f (3 / 2) = ''1.500''"
  using str_3f_nonneg [of "3 / 2" 1500] by (simp add: round_half_even_numeral eval_digits)

lemma str_3f_1_8: "str_3f (1 / 8) = ''0.125''"
  using str_3f_nonneg [of "1 / 8" 125] by (simp add: round_half_even_numeral eval_digits)

lemma str_3f_5_7: "str_3f (5 / 7) = ''0.714''"
  using str_3f_nonneg [of "5 / 7" 714] by (simp add: round_5000_7 eval_digits)

lemmas eval_row = ljust_def rjust_def replicate_numeral str_int_def str_nat.simps digit_char_def
  str_3f_0 str_3f_1 str_3f_2 str_3f_5 str_3f_half str_3f_3_4 str_3f_3_2 str_3f_1_8 str_3f_5_7

lemma row_verify: "format_row (''verify'', 7, 5, 5 / 7, 1 / 8, 2) =
    ''verify                              |            7        5.000      0.714      0.125      2.000''"
  by (simp add: eval_row)

lemma row_connect: "format_row (''connect'', 2, 3 / 2, 3 / 4, 1 / 2, 1) =
    ''connect                             |            2        1.500      0.750      0.500      1.000''"
  by (simp add: eval_row)

lemma row_issue: "format_row (''issue'', 1, 3 / 2, 3 / 2, 3 / 2, 3 / 2) =
    ''issue                               |            1        1.500      1.500      1.500      1.500''"
  by (simp add: eval_row)

lemma row_verify_wide: "format_row (''verify'', 1000000000000, 5, 0, 0, 1) =
    ''verify                              | 1000000000000        5.000      0.000      0.000      1.000''"
  by (simp add: eval_row)

lemma timing_sample_complete: "complete timing_sample"
  by (simp add: complete_def timing_sample_def)

lemma timing_sample_rows:
  "sorted_rows timing_sample =
     Inr [(''verify'', 7, 5, 5 / 7, 1 / 8, 2), (''connect'', 2, 3 / 2, 3 / 4, 1 / 2, 1),
          (''issue'', 1, 3 / 2, 3 / 2, 3 / 2, 3 / 2)]"
  by (simp add: timing_sample_def sorted_rows_def subscript_def sort_reverse_def)

lemma timing_wide_rows:
  "sorted_rows timing_wide =
      Inr [(''verify'', 1000000000000, 5, 0, 0, 1), (''connect'', 2, 3 / 2, 3 / 4, 1 / 2, 1)]"
  by (simp add: timing_wide_def sorted_rows_def subscript_def sort_reverse_def)

lemma timing_sample_lines:
  "format_timing timing_sample =
     Inr [header_line, replicate 96 CHR ''='',
          ''verify                              |            7        5.000      0.714      0.125      2.000'',
          ''connect                             |            2        1.500      0.750      0.500      1.000'',
          ''issue                               |            1        1.500      1.500      1.500      1.500'',
          []]"
  by (simp add: format_timing_def timing_sample_rows row_verify row_connect row_issue
      del: format_row.simps)

lemma timing_wide_lines:
  "format_timing timing_wide =
     Inr [header_line, replicate 96 CHR ''='',
          ''verify                              | 1000000000000        5.000      0.000      0.000      1.000'',
          ''connect                             |            2        1.500      0.750      0.500      1.000'',
          []]"
  by (simp add: format_timing_def timing_wide_rows row_verify_wide row_connect
      del: format_row.simps)

text \<open>
  Three metrics, given in ascending order of total, two of them with the same total: the
  lines that are printed, and what the theorem says of them.
\<close>

theorem format_timing_layout_witness:
  "complete timing_sample \<and>
   format_timing timing_sample =
     Inr [header_line, replicate 96 CHR ''='',
          ''verify                              |            7        5.000      0.714      0.125      2.000'',
          ''connect                             |            2        1.500      0.750      0.500      1.000'',
          ''issue                               |            1        1.500      1.500      1.500      1.500'',
          []] \<and>
   (\<exists>rows.
      format_timing timing_sample =
        Inr ([header_line, replicate 96 CHR ''=''] @ map format_row rows @ [[]]) \<and>
      mset rows = mset (map (row_of_entry timing_sample) (t_count timing_sample)) \<and>
      sorted_wrt (\<lambda>r s. row_total s \<le> row_total r) rows) \<and>
   length header_line = 96"
proof -
  from format_timing_layout [OF timing_sample_complete]
  have "(\<exists>rows.
      format_timing timing_sample =
        Inr ([header_line, replicate 96 CHR ''=''] @ map format_row rows @ [[]]) \<and>
      mset rows = mset (map (row_of_entry timing_sample) (t_count timing_sample)) \<and>
      sorted_wrt (\<lambda>r s. row_total s \<le> row_total r) rows) \<and>
   length header_line = 96"
    by blast
  with timing_sample_complete timing_sample_lines show ?thesis
    by (intro conjI) (assumption | erule conjunct1 | erule conjunct2)+
qed

text \<open>
  Claim C5 as stated gives every data row the same fixed width. A count of thirteen
  digits does not fit its column of twelve: its row is 97 characters wide, next to a row
  of 96 under a header of 96.
\<close>

theorem format_timing_width_counterexample:
  "complete timing_wide \<and>
   format_timing timing_wide =
     Inr [header_line, replicate 96 CHR ''='',
          ''verify                              | 1000000000000        5.000      0.000      0.000      1.000'',
          ''connect                             |            2        1.500      0.750      0.500      1.000'',
          []] \<and>
   length header_line = 96 \<and>
   length ''verify                              | 1000000000000        5.000      0.000      0.000      1.000'' = 97 \<and>
   length ''connect                             |            2        1.500      0.750      0.500      1.000'' = 96"
proof -
  have c: "complete timing_wide"
    by (simp add: complete_def timing_wide_def)
  have l1: "length ''verify                              | 1000000000000        5.000      0.000      0.000      1.000'' = 97"
    by simp
  have l2: "length ''connect                             |            2        1.500      0.750      0.500      1.000'' = 96"
    by simp
  show ?thesis
    by (intro conjI) (rule c, rule timing_wide_lines, rule length_header_line, rule l1, rule l2)
qed

end
